theory Spec2Isabelle
  imports Complex_Main "HOL-Library.Word"
begin

unbundle bit_operations_syntax

section \<open>Machine types\<close>

type_synonym u8 = "8 word"
type_synonym u16 = "16 word"
type_synonym u32 = "32 word"

section \<open>The checksum: \<open>cSHT_3x::crc\<close>\<close>

text \<open>
  The table of \<open>cSHT_3x::crc\<close>, indexed by a nibble. Both indices the source computes
  are below 16, so every lookup is in range.
\<close>

definition crcTable :: "u8 list" where
  "crcTable = [0x00, 0x31, 0x62, 0x53, 0xc4, 0xf5, 0xa6, 0x97,
               0xb9, 0x88, 0xdb, 0xea, 0x7d, 0x4c, 0x1f, 0x2e]"

text \<open>
  The body of the loop of \<open>cSHT_3x::crc\<close> for one byte \<open>b = *buf\<close>. The source computes
  on promoted integers and stores into \<open>uint8_t\<close> variables; the store truncates to eight
  bits, which is what \<open>push_bit\<close> on an 8-bit word does, and the right shifts act on
  values below 256.
\<close>

definition crc_byte :: "u8 \<Rightarrow> u8 \<Rightarrow> u8" where
  "crc_byte crc8 b =
     (let p = drop_bit 4 (b XOR crc8);
          crc8 = push_bit 4 crc8 XOR crcTable ! unat p;
          p = (drop_bit 4 crc8 XOR b) AND 0xF;
          crc8 = push_bit 4 crc8 XOR crcTable ! unat p
      in crc8)"

text \<open>
  \<open>crc(buf, nBuf, crc8)\<close>: the list is the \<open>nBuf\<close> bytes that start at \<open>buf\<close>, consumed
  front to back.
\<close>

fun crc :: "u8 list \<Rightarrow> u8 \<Rightarrow> u8" where
  "crc [] crc8 = crc8"
| "crc (b # buf) crc8 = crc buf (crc_byte crc8 b)"

text \<open>
  Modelled from the spec: the default value of the parameter \<open>crc8\<close> is given in the
  class declaration, which is not among the sources; the spec states the initial value
  0xFF.
\<close>

definition crc_init :: u8 where
  "crc_init = 0xFF"

subsection \<open>The reference CRC-8 the spec names\<close>

text \<open>
  The textbook bitwise CRC-8, most significant bit first, no reflection, no final XOR:
  the byte is XORed into the register, which is then shifted left eight times, the
  polynomial being XORed in whenever a one is shifted out.
\<close>

definition crc8_shift :: "u8 \<Rightarrow> u8 \<Rightarrow> u8" where
  "crc8_shift poly c = (if bit c 7 then push_bit 1 c XOR poly else push_bit 1 c)"

definition crc8_ref_byte :: "u8 \<Rightarrow> u8 \<Rightarrow> u8 \<Rightarrow> u8" where
  "crc8_ref_byte poly c b = (crc8_shift poly ^^ 8) (c XOR b)"

fun crc8_ref :: "u8 \<Rightarrow> u8 \<Rightarrow> u8 list \<Rightarrow> u8" where
  "crc8_ref poly c [] = c"
| "crc8_ref poly c (b # bs) = crc8_ref poly (crc8_ref_byte poly c b) bs"

text \<open>Four shifts with the polynomial 0x31, the unit the nibble table stands for.\<close>

definition shift4 :: "u8 \<Rightarrow> u8" where
  "shift4 x = crc8_shift 0x31 (crc8_shift 0x31 (crc8_shift 0x31 (crc8_shift 0x31 x)))"

section \<open>Declarations of the class header\<close>

text \<open>
  Modelled from the spec: the enumerations \<open>Command\<close>, \<open>Periodicity\<close>,
  \<open>Repeatability\<close> and \<open>ClockStretching\<close> are declared in the class header, which is
  not among the sources. An enumeration is taken by its integer value (the source
  converts a \<open>Command\<close> to \<open>uint16_t\<close> and a \<open>Repeatability\<close> to \<open>int\<close>), and the
  enumerators and lookup functions the source file uses are the fields of a record that
  every operation takes as a parameter.
\<close>

type_synonym Command = u16
type_synonym Periodicity = int
type_synonym Repeatability = int
type_synonym ClockStretching = int

record header =
  Command_Error :: Command
  Command_SoftReset :: Command
  Command_GetStatus :: Command
  Command_Break :: Command
  Command_Fetch :: Command
  Periodicity_Single :: Periodicity
  ClockStretching_Disabled :: ClockStretching
  getCommand :: "Periodicity \<Rightarrow> Repeatability \<Rightarrow> ClockStretching \<Rightarrow> Command"
  getPeriodicity :: "Command \<Rightarrow> Periodicity"
  PeriodicityToMillis :: "Periodicity \<Rightarrow> u32"

text \<open>
  Modelled from the spec: the device handle holds an immutable bus address, the
  skip-integrity-check flag and the debug flag; \<open>getAddress\<close> yields the address as a
  signed 8-bit integer and \<open>isDebug\<close> the debug flag.
\<close>

record cSHT_3x =
  m_address :: u8
  m_noCrc :: bool
  m_fDebug :: bool

definition getAddress :: "cSHT_3x \<Rightarrow> u8" where
  "getAddress this = m_address this"

definition isDebug :: "cSHT_3x \<Rightarrow> bool" where
  "isDebug this = m_fDebug this"

text \<open>
  Modelled from the spec: \<open>Status_t\<close> is a validity-tagged 16-bit bitfield; the
  constructor from a status word gives a valid status, the default constructor the
  explicitly invalid one.
\<close>

datatype Status_t = StatusInvalid | StatusValid u16

text \<open>
  A \<open>float\<close> result: the not-a-number sentinel or a number. Rounding to single
  precision is not modelled.
\<close>

datatype cfloat = NaN | Finite real

text \<open>
  Modelled from the spec: the conversions are defined in the class header;
  \<open>rawTtoCelsius(frac) = -45 + 175 * frac / 65535\<close> and
  \<open>rawRHtoPercent(frac) = 100 * frac / 65535\<close>, taken over the reals.
\<close>

definition rawTtoCelsius :: "u16 \<Rightarrow> real" where
  "rawTtoCelsius raw = -45 + 175 * real (unat raw) / 65535"

definition rawRHtoPercent :: "u16 \<Rightarrow> real" where
  "rawRHtoPercent raw = 100 * real (unat raw) / 65535"

section \<open>The environment: two-wire bus, delay and debug console\<close>

datatype event =
    BeginTransmission u8
  | WriteByte u8
  | EndTransmission
  | RequestFrom u8 u8
  | Delay nat

datatype serial_out =
    Print string
  | PrintNum int
  | PrintHex u16
  | Println string
  | PrintlnNum int

text \<open>
  The world outside the driver. \<open>trace\<close> records every bus operation and every delay
  in the order performed; \<open>rx\<close> is the receive buffer of the bus object; \<open>serial\<close> is
  what has been printed on the debug console. The remaining fields are never changed:
  \<open>bus_status\<close> and \<open>bus_data\<close> are the behaviour of the bus and the sensor, as
  functions of everything that has happened so far, and \<open>indet8\<close>, \<open>indet16\<close> are the
  indeterminate contents of local variables the source declares without initialiser.
\<close>

record world =
  trace :: "event list"
  rx :: "u8 list"
  serial :: "serial_out list"
  bus_status :: "event list \<Rightarrow> u8"
  bus_data :: "event list \<Rightarrow> u8 list"
  indet8 :: "nat \<Rightarrow> u8"
  indet16 :: "nat \<Rightarrow> u16"

text \<open>
  Modelled from the spec: the transport adapter is an external collaborator with the
  capabilities \<open>beginTransaction(address)\<close>, \<open>writeByte(b)\<close>,
  \<open>endTransaction() \<rightarrow> status code, 0 = success\<close>,
  \<open>requestBytes(address, count) \<rightarrow> actual bytes made available\<close> and
  \<open>readByte() \<rightarrow> next available byte\<close>. A request makes at most \<open>count\<close> bytes
  available and replaces what was in the receive buffer; reading from an empty buffer
  yields -1, which a \<open>uint8_t\<close> holds as 0xFF.
\<close>

definition Wire_beginTransmission :: "u8 \<Rightarrow> world \<Rightarrow> world" where
  "Wire_beginTransmission addr w = w\<lparr>trace := trace w @ [BeginTransmission addr]\<rparr>"

definition Wire_write :: "u8 \<Rightarrow> world \<Rightarrow> world" where
  "Wire_write b w = w\<lparr>trace := trace w @ [WriteByte b]\<rparr>"

definition Wire_endTransmission :: "world \<Rightarrow> u8 \<times> world" where
  "Wire_endTransmission w =
     (bus_status w (trace w), w\<lparr>trace := trace w @ [EndTransmission]\<rparr>)"

definition Wire_requestFrom :: "u8 \<Rightarrow> u8 \<Rightarrow> world \<Rightarrow> u8 \<times> world" where
  "Wire_requestFrom addr quantity w =
     (let data = take (unat quantity) (bus_data w (trace w))
      in (of_nat (length data),
          w\<lparr>trace := trace w @ [RequestFrom addr quantity], rx := data\<rparr>))"

definition Wire_available :: "world \<Rightarrow> nat" where
  "Wire_available w = length (rx w)"

definition Wire_read :: "world \<Rightarrow> u8 \<times> world" where
  "Wire_read w = (case rx w of [] \<Rightarrow> (0xFF, w) | b # bs \<Rightarrow> (b, w\<lparr>rx := bs\<rparr>))"

definition delay :: "nat \<Rightarrow> world \<Rightarrow> world" where
  "delay ms w = w\<lparr>trace := trace w @ [Delay ms]\<rparr>"

text \<open>\<open>if (this->isDebug()) Serial.print(...)\<close>: the items are printed in debug mode only.\<close>

definition debug_print :: "cSHT_3x \<Rightarrow> serial_out list \<Rightarrow> world \<Rightarrow> world" where
  "debug_print this items w = (if isDebug this then w\<lparr>serial := serial w @ items\<rparr> else w)"

text \<open>A local array declared without initialiser.\<close>

definition local_buf :: "nat \<Rightarrow> world \<Rightarrow> u8 list" where
  "local_buf n w = map (indet8 w) [0..<n]"

section \<open>The bus helpers\<close>

definition writeCommand :: "cSHT_3x \<Rightarrow> Command \<Rightarrow> world \<Rightarrow> bool \<times> world" where
  "writeCommand this c w =
     (let cbits = c;
          addr = getAddress this
      in if sint addr < 0
         then (False, debug_print this [Println ''writeCommand: bad address''] w)
         else
           (let w = Wire_beginTransmission addr w;
                w = Wire_write (ucast (drop_bit 8 cbits)) w;
                w = Wire_write (ucast (cbits AND 0xFF)) w;
                (result, w) = Wire_endTransmission w
            in if result \<noteq> 0
               then (False,
                     debug_print this
                       [Print ''writeCommand: error writing command 0x'', PrintHex cbits,
                        Print '', result: '', PrintlnNum (uint result)] w)
               else (True, w)))"

text \<open>
  The loop \<open>for (unsigned i = 0; i < nResult; ++i) buf[i] = this->m_wire->read();\<close>.
  The list update leaves a list unchanged at an index beyond its end, where the source
  would write outside the array; \<open>readResponse_in_bounds\<close> below shows that the index
  stays inside the array for the bus modelled here.
\<close>

function read_loop :: "nat \<Rightarrow> nat \<Rightarrow> u8 list \<Rightarrow> world \<Rightarrow> u8 list \<times> world" where
  "read_loop i nResult buf w =
     (if i < nResult
      then (case Wire_read w of (b, w') \<Rightarrow> read_loop (Suc i) nResult (buf[i := b]) w')
      else (buf, w))"
  by pat_completeness auto
termination
  by (relation "measure (\<lambda>(i, nResult, buf, w). nResult - i)") auto

declare read_loop.simps [simp del]

text \<open>
  \<open>readResponse(buf, nBuf)\<close>: \<open>None\<close> is the null pointer, \<open>Some xs\<close> a pointer to an
  array with contents \<open>xs\<close>; the array after the call is returned with the result.
\<close>

definition readResponse ::
  "cSHT_3x \<Rightarrow> u8 list option \<Rightarrow> nat \<Rightarrow> world \<Rightarrow> bool \<times> u8 list option \<times> world" where
  "readResponse this buf nBuf w =
     (let addr = getAddress this
      in if buf = None \<or> nBuf > 32 \<or> sint addr < 0
         then (False, buf, debug_print this [Println ''readResponse: invalid parameter''] w)
         else
           (let (nReadFrom, w) = Wire_requestFrom addr (of_nat nBuf) w;
                w = (if unat nReadFrom \<noteq> nBuf
                     then debug_print this
                            [Print ''readResponse: nReadFrom('', PrintNum (uint nReadFrom),
                             Print '') != nBuf('', PrintNum (int nBuf), Println '')''] w
                     else w);
                nResult = Wire_available w;
                (xs, w) = read_loop 0 nResult (the buf) w;
                w = (if nResult \<noteq> nBuf
                     then debug_print this
                            [Print ''readResponse: nResult('', PrintNum (int nResult),
                             Print '') != nBuf('', PrintNum (int nBuf), Println '')''] w
                     else w)
            in (nResult = nBuf, Some xs, w)))"

section \<open>Decoding and validation\<close>

text \<open>The expression \<open>(buf[i] << 8) | buf[i + 1]\<close> stored into a \<open>uint16_t\<close>.\<close>

definition be16 :: "u8 \<Rightarrow> u8 \<Rightarrow> u16" where
  "be16 hi lo = push_bit 8 (ucast hi) OR ucast lo"

text \<open>
  \<open>processResultsRaw(buf, tfrac, rhfrac)\<close>: the parameter is a reference to an array of
  six bytes. Both output parameters are assigned before the checksums are compared, so
  the values they hold afterwards are returned with the result.
\<close>

definition processResultsRaw :: "cSHT_3x \<Rightarrow> u8 list \<Rightarrow> bool \<times> u16 \<times> u16" where
  "processResultsRaw this buf =
     (let tfrac = be16 (buf ! 0) (buf ! 1);
          rhfrac = be16 (buf ! 3) (buf ! 4)
      in if \<not> m_noCrc this
         then (if crc (take 2 buf) crc_init \<noteq> buf ! 2 \<or>
                  crc (take 2 (drop 3 buf)) crc_init \<noteq> buf ! 5
               then (False, tfrac, rhfrac)
               else (True, tfrac, rhfrac))
         else (True, tfrac, rhfrac))"

section \<open>The operations\<close>

definition reset :: "header \<Rightarrow> cSHT_3x \<Rightarrow> world \<Rightarrow> bool \<times> world" where
  "reset H this w =
     (case writeCommand this (Command_SoftReset H) w of
        (True, w) \<Rightarrow> (True, delay 10 w)
      | (False, w) \<Rightarrow> (False, w))"

definition getStatus :: "header \<Rightarrow> cSHT_3x \<Rightarrow> world \<Rightarrow> Status_t \<times> world" where
  "getStatus H this w =
     (let buf = local_buf 3 w;
          (ok, w) = writeCommand this (Command_GetStatus H) w;
          (ok, buf, w) =
            (if ok
             then (case readResponse this (Some buf) 3 w of (ok, b, w) \<Rightarrow> (ok, the b, w))
             else (ok, buf, w));
          ok = (if ok \<and> \<not> m_noCrc this then crc (take 2 buf) crc_init = buf ! 2 else ok)
      in if ok
         then (StatusValid (be16 (buf ! 0) (buf ! 1)), w)
         else (StatusInvalid, w))"

text \<open>
  \<open>getTemperatureHumidityRaw(t, rh, r)\<close>: the pair \<open>(t, rh)\<close> is what the output
  parameters hold before the call; what they hold afterwards is returned with the result.
\<close>

definition getTemperatureHumidityRaw ::
  "header \<Rightarrow> cSHT_3x \<Rightarrow> u16 \<times> u16 \<Rightarrow> Repeatability \<Rightarrow> world \<Rightarrow> bool \<times> u16 \<times> u16 \<times> world" where
  "getTemperatureHumidityRaw H this out r w =
     (let (t, rh) = out;
          c = getCommand H (Periodicity_Single H) r (ClockStretching_Disabled H);
          fResult = True;
          (fResult, w) =
            (if c = Command_Error H
             then (False,
                   debug_print this
                     [Print ''getTemperatureHumidityRaw: Illegal repeatability: '',
                      PrintlnNum r] w)
             else (fResult, w));
          buf = local_buf 6 w;
          (fResult, w) =
            (if fResult
             then (case writeCommand this c w of (fResult, w) \<Rightarrow>
                     (fResult,
                      if \<not> fResult
                      then debug_print this
                             [Println ''getTemperatureHumidityRaw: writeCommand failed''] w
                      else w))
             else (fResult, w));
          (fResult, buf, w) =
            (if fResult
             then (case readResponse this (Some buf) 6 (delay 20 w) of (fResult, b, w) \<Rightarrow>
                     (fResult, the b,
                      if \<not> fResult
                      then debug_print this
                             [Println ''getTemperatureHumidityRaw: readResponse failed''] w
                      else w))
             else (fResult, buf, w));
          (fResult, t, rh, w) =
            (if fResult
             then (case processResultsRaw this buf of (fResult, t, rh) \<Rightarrow>
                     (fResult, t, rh,
                      if \<not> fResult
                      then debug_print this
                             [Println ''getTemperatureHumidityRaw: processResultsRaw failed''] w
                      else w))
             else (fResult, t, rh, w))
      in (fResult, t, rh, w))"

text \<open>
  \<open>getTemperatureHumidity(t, rh, r)\<close>: both output parameters are assigned on every
  path. The locals \<open>tfrac\<close> and \<open>rhfrac\<close> are declared without initialiser.
\<close>

definition getTemperatureHumidity ::
  "header \<Rightarrow> cSHT_3x \<Rightarrow> Repeatability \<Rightarrow> world \<Rightarrow> bool \<times> cfloat \<times> cfloat \<times> world" where
  "getTemperatureHumidity H this r w =
     (let (fResult, tfrac, rhfrac, w) =
            getTemperatureHumidityRaw H this (indet16 w 0, indet16 w 1) r w
      in if fResult
         then (fResult, Finite (rawTtoCelsius tfrac), Finite (rawRHtoPercent rhfrac), w)
         else (fResult, NaN, NaN, w))"

definition startPeriodicMeasurement :: "header \<Rightarrow> cSHT_3x \<Rightarrow> Command \<Rightarrow> world \<Rightarrow> u32 \<times> world" where
  "startPeriodicMeasurement H this c w =
     (let result = PeriodicityToMillis H (getPeriodicity H c)
      in if result = 0 then (result, w)
         else (case writeCommand this (Command_Break H) w of (ok, w) \<Rightarrow>
                 if \<not> ok then (0, w)
                 else (case writeCommand this c w of (ok, w) \<Rightarrow>
                         if \<not> ok then (0, w) else (result, w))))"

definition getPeriodicMeasurementRaw ::
  "header \<Rightarrow> cSHT_3x \<Rightarrow> u16 \<times> u16 \<Rightarrow> world \<Rightarrow> bool \<times> u16 \<times> u16 \<times> world" where
  "getPeriodicMeasurementRaw H this out w =
     (let (tfrac, rhfrac) = out;
          buf = local_buf 6 w;
          (fResult, w) = writeCommand this (Command_Fetch H) w;
          (fResult, buf, w) =
            (if fResult
             then (case readResponse this (Some buf) 6 w of (fResult, b, w) \<Rightarrow>
                     (fResult, the b, w))
             else (fResult, buf, w));
          (fResult, tfrac, rhfrac) =
            (if fResult then processResultsRaw this buf else (fResult, tfrac, rhfrac))
      in (fResult, tfrac, rhfrac, w))"

text \<open>
  \<open>getPeriodicMeasurement(t, rh)\<close>: the pair \<open>(t, rh)\<close> is what the output parameters
  hold before the call. On failure the source returns before assigning them.
\<close>

definition getPeriodicMeasurement ::
  "header \<Rightarrow> cSHT_3x \<Rightarrow> cfloat \<times> cfloat \<Rightarrow> world \<Rightarrow> bool \<times> cfloat \<times> cfloat \<times> world" where
  "getPeriodicMeasurement H this out w =
     (let (t, rh) = out;
          (fResult, tfrac, rhfrac, w) =
            getPeriodicMeasurementRaw H this (indet16 w 0, indet16 w 1) w
      in if \<not> fResult then (False, t, rh, w)
         else if fResult
         then (fResult, Finite (rawTtoCelsius tfrac), Finite (rawRHtoPercent rhfrac), w)
         else (fResult, t, rh, w))"

section \<open>Vocabulary of the statements\<close>

text \<open>
  The events of one command write, as \<open>writeCommand\<close> performs them when the address is
  valid: the transaction is begun, the opcode is written high byte first, and the
  transaction is ended.
\<close>

definition cmd_frame :: "cSHT_3x \<Rightarrow> Command \<Rightarrow> event list" where
  "cmd_frame this c =
     [BeginTransmission (getAddress this), WriteByte (ucast (drop_bit 8 c)),
      WriteByte (ucast (c AND 0xFF)), EndTransmission]"

text \<open>
  The write of command \<open>c\<close> issued in world \<open>w\<close> succeeds: the address is not negative
  and the bus reports status 0 at the end of the transaction.
\<close>

definition write_ok :: "cSHT_3x \<Rightarrow> Command \<Rightarrow> world \<Rightarrow> bool" where
  "write_ok this c w \<longleftrightarrow>
     \<not> sint (getAddress this) < 0 \<and> bus_status w (trace w @ butlast (cmd_frame this c)) = 0"

text \<open>
  Concrete instances at which the theorems are evaluated: a header with the opcodes of
  the sensor's data sheet (the theorems hold for every header), a device at address
  0x44, and a world whose bus acknowledges every write and answers every read request
  with the given bytes.
\<close>

definition example_header :: header where
  "example_header =
     \<lparr>Command_Error = 0, Command_SoftReset = 0x30A2, Command_GetStatus = 0xF32D,
      Command_Break = 0x3093, Command_Fetch = 0xE000,
      Periodicity_Single = 0, ClockStretching_Disabled = 0,
      getCommand = (\<lambda>p r s.
        if p = 0 \<and> s = 0
        then (if r = 0 then 0x2416 else if r = 1 then 0x240B else if r = 2 then 0x2400 else 0)
        else if p = 2 \<and> r = 2 then 0x2130 else 0),
      getPeriodicity = (\<lambda>c. if c = 0x2130 then 2 else 0),
      PeriodicityToMillis = (\<lambda>p. if p = 2 then 1000 else 0)\<rparr>"

definition example_device :: "bool \<Rightarrow> cSHT_3x" where
  "example_device noCrc = \<lparr>m_address = 0x44, m_noCrc = noCrc, m_fDebug = False\<rparr>"

definition example_world :: "u8 list \<Rightarrow> world" where
  "example_world reply =
     \<lparr>trace = [], rx = [], serial = [], bus_status = (\<lambda>_. 0), bus_data = (\<lambda>_. reply),
      indet8 = (\<lambda>_. 0), indet16 = (\<lambda>_. 0)\<rparr>"

section \<open>The checksum is the CRC-8 with polynomial 0x31\<close>

lemma crc8_shift_xor:
  "crc8_shift poly (x XOR y) = crc8_shift poly x XOR crc8_shift poly y"
  by (simp add: crc8_shift_def bit_xor_iff push_bit_xor ac_simps)

lemma shift4_xor: "shift4 (x XOR y) = shift4 x XOR shift4 y"
  by (simp add: shift4_def crc8_shift_xor)

lemma nibble_cases:
  assumes "k < (16::nat)"
  obtains "k = 0" | "k = 1" | "k = 2" | "k = 3" | "k = 4" | "k = 5" | "k = 6" | "k = 7"
    | "k = 8" | "k = 9" | "k = 10" | "k = 11" | "k = 12" | "k = 13" | "k = 14" | "k = 15"
proof -
  have "k \<in> {15, 14, 13, 12, 11, 10, 9, 8, 7, 6, 5, 4, 3, 2, 1, 0}"
    using assms by (simp only: insert_iff empty_iff) presburger
  then show thesis using that by blast
qed

text \<open>Entry \<open>n\<close> of the table is the nibble \<open>n\<close>, placed in the high half, shifted out.\<close>

lemma table_shift4:
  assumes "n < 16"
  shows "crcTable ! n = shift4 (push_bit 4 (of_nat n))"
  using assms
  by (rule nibble_cases) (simp_all add: crcTable_def shift4_def crc8_shift_def)

lemma low_shift4:
  assumes "n < 16"
  shows "shift4 (of_nat n) = push_bit 4 (of_nat n)"
  using assms
  by (rule nibble_cases) (simp_all add: shift4_def crc8_shift_def)

lemma low_mask: "(x::u8) AND 0xF = take_bit 4 x"
  by (simp add: take_bit_eq_mask mask_eq_exp_minus_1)

lemma unat_hi_nibble: "unat (drop_bit 4 (x::u8)) < 16"
proof -
  have "unat x < 256" using unsigned_less [of x] by simp
  then have "unat x div 16 < 16" by simp
  then show ?thesis by (simp add: drop_bit_eq_div unat_div)
qed

lemma unat_lo_nibble: "unat ((x::u8) AND 0xF) < 16"
proof -
  have "unat (x AND 0xF) \<le> unat (0xF :: u8)"
    by (rule word_and_le1 [THEN word_le_nat_alt [THEN iffD1]])
  then show ?thesis by simp
qed

lemma split_nibbles: "(x::u8) = push_bit 4 (drop_bit 4 x) XOR (x AND 0xF)"
  unfolding low_mask by (rule bit_word_eqI) (auto simp: bit_simps)

lemma push4_low: "push_bit 4 ((x::u8) AND 0xF) = push_bit 4 x"
  unfolding low_mask by (rule bit_word_eqI) (auto simp: bit_simps)

lemma shift4_table: "shift4 x = push_bit 4 x XOR crcTable ! unat (drop_bit 4 x)"
proof -
  have "shift4 x = shift4 (push_bit 4 (drop_bit 4 x)) XOR shift4 (x AND 0xF)"
    using split_nibbles [of x] shift4_xor by metis
  also have "shift4 (push_bit 4 (drop_bit 4 x)) = crcTable ! unat (drop_bit 4 x)"
    using table_shift4 [OF unat_hi_nibble, of x] by simp
  also have "shift4 (x AND 0xF) = push_bit 4 x"
  proof -
    have "word_of_nat (unat (x AND 0xF)) = x AND 0xF" by simp
    with low_shift4 [OF unat_lo_nibble, of x]
    have "shift4 (x AND 0xF) = push_bit 4 (x AND 0xF)" by (simp only:)
    then show ?thesis by (simp only: push4_low)
  qed
  finally show ?thesis by (simp add: ac_simps)
qed

lemma second_index:
  "(drop_bit 4 (y XOR push_bit 4 b) XOR b) AND 0xF = drop_bit 4 (y::u8)"
  unfolding low_mask
  by (rule bit_word_eqI) (auto simp: bit_simps dest: bit_imp_le_length)

lemma second_shift: "push_bit 4 (y XOR push_bit 4 b) = push_bit 4 (y::u8)"
  by (rule bit_word_eqI) (auto simp: bit_simps)

lemma ref_byte_shift4: "crc8_ref_byte 0x31 c b = shift4 (shift4 (c XOR b))"
  by (simp add: crc8_ref_byte_def shift4_def eval_nat_numeral)

lemma crc_byte_ref: "crc_byte c b = crc8_ref_byte 0x31 c b"
proof -
  define x where "x = c XOR b"
  define c1 where "c1 = push_bit 4 c XOR crcTable ! unat (drop_bit 4 (b XOR c))"
  have c1: "c1 = shift4 x XOR push_bit 4 b"
    by (simp add: c1_def x_def shift4_table push_bit_xor ac_simps)
  have "crc_byte c b = push_bit 4 c1 XOR crcTable ! unat ((drop_bit 4 c1 XOR b) AND 0xF)"
    by (simp add: crc_byte_def Let_def c1_def)
  also have "\<dots> = push_bit 4 (shift4 x) XOR crcTable ! unat (drop_bit 4 (shift4 x))"
    by (simp only: c1 second_index second_shift)
  also have "\<dots> = shift4 (shift4 x)"
    by (simp only: shift4_table [of "shift4 x"])
  finally show ?thesis by (simp add: ref_byte_shift4 x_def)
qed

text \<open>
  C1. The checksum function, started from any running value and so from 0xFF, equals
  the reference CRC-8 with polynomial 0x31 on every byte sequence; one step of it is
  the two table substitutions, first with the high nibble of the byte XOR the running
  value, then with the low nibble of the same byte against the updated running value;
  and on a two-byte group it agrees with the reference for every pair of bytes and every
  initial state.
\<close>

theorem crc_is_crc8_poly31:
  "crc buf crc_init = crc8_ref 0x31 0xFF buf
   \<and> crc buf c = crc8_ref 0x31 c buf
   \<and> crc [b0, b1] c = crc8_ref_byte 0x31 (crc8_ref_byte 0x31 c b0) b1
   \<and> crc_byte c b =
       (let c1 = push_bit 4 c XOR crcTable ! unat (drop_bit 4 (b XOR c))
        in push_bit 4 c1 XOR crcTable ! unat ((drop_bit 4 c1 XOR b) AND 0xF))"
proof -
  have gen: "crc xs d = crc8_ref 0x31 d xs" for xs d
    by (induction xs arbitrary: d) (simp_all add: crc_byte_ref)
  show ?thesis
    by (simp add: gen crc_init_def) (simp add: crc_byte_def Let_def)
qed

section \<open>The bus helpers and the operations, in terms of the bus\<close>

lemma readResponse_in_bounds:
  "nBuf \<le> 32 \<Longrightarrow> Wire_available (snd (Wire_requestFrom addr (of_nat nBuf) w)) \<le> nBuf"
  by (simp add: Wire_available_def Wire_requestFrom_def Let_def unat_of_nat)

lemma debug_print_serial:
  "debug_print this items w = w\<lparr>serial := serial w @ (if isDebug this then items else [])\<rparr>"
  by (simp add: debug_print_def)

lemma read_loop_drain:
  "rx w = xs \<Longrightarrow> i + length xs = n \<Longrightarrow> n \<le> length buf \<Longrightarrow>
   read_loop i n buf w = (take i buf @ xs @ drop n buf, w\<lparr>rx := []\<rparr>)"
proof (induction xs arbitrary: w i buf)
  case Nil
  then show ?case by (simp add: read_loop.simps [of n n buf w])
next
  case (Cons x xs)
  from Cons.prems have i: "i < n" "i < length buf" by simp_all
  have rd: "Wire_read w = (x, w\<lparr>rx := xs\<rparr>)"
    using Cons.prems by (simp add: Wire_read_def)
  have "read_loop (Suc i) n (buf[i := x]) (w\<lparr>rx := xs\<rparr>) =
        (take (Suc i) (buf[i := x]) @ xs @ drop n (buf[i := x]), w\<lparr>rx := xs\<rparr>\<lparr>rx := []\<rparr>)"
    using Cons.prems by (intro Cons.IH) simp_all
  then show ?case
    using i by (simp add: read_loop.simps [of i n buf w] rd take_Suc_conv_app_nth)
qed

lemma writeCommand_world:
  "\<exists>s. writeCommand this c w =
     (write_ok this c w,
      w\<lparr>trace := trace w @ (if sint (getAddress this) < 0 then [] else cmd_frame this c),
        serial := s\<rparr>)"
  by (auto simp: writeCommand_def write_ok_def cmd_frame_def Let_def debug_print_def
      Wire_beginTransmission_def Wire_write_def Wire_endTransmission_def
      intro: exI [of _ "serial w"])

lemma readResponse_world:
  assumes "n \<le> 32" "n \<le> length b"
  shows "\<exists>s. readResponse this (Some b) n w =
     (if sint (getAddress this) < 0 then (False, Some b, w\<lparr>serial := s\<rparr>)
      else (let data = take n (bus_data w (trace w))
            in (length data = n, Some (data @ drop (length data) b),
                w\<lparr>trace := trace w @ [RequestFrom (getAddress this) (of_nat n)],
                  rx := [], serial := s\<rparr>)))"
proof (cases "sint (getAddress this) < 0")
  case True
  then show ?thesis using assms
    by (auto simp: readResponse_def debug_print_def intro: exI [of _ "serial w"])
next
  case False
  have n: "unat (of_nat n :: u8) = n" using assms by (simp add: unat_of_nat)
  define data where "data = take n (bus_data w (trace w))"
  have len: "length data \<le> n" by (simp add: data_def)
  have m: "unat (of_nat (length data) :: u8) = length data"
    using assms len by (simp add: unat_of_nat)
  have rl: "read_loop 0 (length data) b w' = (data @ drop (length data) b, w'\<lparr>rx := []\<rparr>)"
    if "rx w' = data" for w'
    using read_loop_drain [of w' data 0 "length data" b] that len assms by simp
  show ?thesis
    using False assms n m
    by (auto simp: readResponse_def Let_def Wire_requestFrom_def Wire_available_def
        debug_print_def rl simp flip: data_def intro: exI [of _ "serial w"])
qed

lemma length_local_buf [simp]: "length (local_buf n w) = n"
  by (simp add: local_buf_def)

lemma local_buf_frame [simp]:
  "local_buf n (w\<lparr>trace := t\<rparr>) = local_buf n w"
  "local_buf n (w\<lparr>rx := r\<rparr>) = local_buf n w"
  "local_buf n (w\<lparr>serial := s\<rparr>) = local_buf n w"
  by (simp_all add: local_buf_def)

lemma write_ok_frame [simp]:
  "write_ok this c (w\<lparr>rx := r\<rparr>) = write_ok this c w"
  "write_ok this c (w\<lparr>serial := s\<rparr>) = write_ok this c w"
  by (simp_all add: write_ok_def)

lemma write_ok_address: "write_ok this c w \<Longrightarrow> \<not> sint (getAddress this) < 0"
  by (simp add: write_ok_def)

lemma trace_debug_print [simp]:
  "trace (debug_print this items w) = trace w"
  "rx (debug_print this items w) = rx w"
  by (simp_all add: debug_print_def)

lemma processResultsRaw_eq:
  "processResultsRaw this buf =
     (m_noCrc this \<or>
        crc (take 2 buf) crc_init = buf ! 2 \<and> crc (take 2 (drop 3 buf)) crc_init = buf ! 5,
      be16 (buf ! 0) (buf ! 1), be16 (buf ! 3) (buf ! 4))"
  by (simp add: processResultsRaw_def Let_def)

subsection \<open>The big-endian decoding\<close>

text \<open>
  The high byte lies above the low byte, so the bitwise OR is their sum: the decoded word
  is 256 times the first byte plus the second.
\<close>

lemma be16_plus: "be16 hi lo = push_bit 8 (ucast hi) + ucast lo"
  unfolding be16_def
  by (rule disjunctive_add [symmetric]) (auto simp: bit_simps dest: bit_imp_le_length)

lemma be16_unat: "unat (be16 hi lo) = 256 * unat hi + unat lo"
proof -
  have h: "unat hi < 256" and l: "unat lo < 256"
    using unsigned_less [of hi] unsigned_less [of lo] by simp_all
  have b: "unat (ucast x :: u16) = unat x" for x :: u8
  proof -
    have "unat x < 256" using unsigned_less [of x] by simp
    then have "unat x < 2 ^ 16" by simp
    then show ?thesis by (simp add: unsigned_ucast_eq take_bit_nat_eq_self)
  qed
  have a: "unat (push_bit 8 (ucast hi :: u16)) = 256 * unat hi"
    using h by (simp add: push_bit_eq_mult unat_word_ariths b)
  show ?thesis
    using h l by (simp add: be16_plus unat_word_ariths a b)
qed

subsection \<open>\<open>getStatus\<close>\<close>

lemma getStatus_fail:
  "writeCommand this (Command_GetStatus H) w = (False, w1) \<Longrightarrow>
   getStatus H this w = (StatusInvalid, w1)"
  by (simp add: getStatus_def)

lemma getStatus_read:
  "writeCommand this (Command_GetStatus H) w = (True, w1) \<Longrightarrow>
   readResponse this (Some (local_buf 3 w)) 3 w1 = (ok, Some b, w2) \<Longrightarrow>
   getStatus H this w =
     (if ok \<and> (m_noCrc this \<or> crc (take 2 b) crc_init = b ! 2)
      then StatusValid (be16 (b ! 0) (b ! 1)) else StatusInvalid, w2)"
  by (simp add: getStatus_def)

lemma getStatus_world:
  fixes H this w
  defines "gs \<equiv> Command_GetStatus H"
  defines "data \<equiv> take 3 (bus_data w (trace w @ cmd_frame this gs))"
  shows "\<exists>w'. getStatus H this w =
     (if write_ok this gs w \<and> length data = 3 \<and>
         (m_noCrc this \<or> crc (take 2 data) crc_init = data ! 2)
      then StatusValid (be16 (data ! 0) (data ! 1)) else StatusInvalid, w')"
proof -
  obtain s1 where w1: "writeCommand this gs w =
     (write_ok this gs w,
      w\<lparr>trace := trace w @ (if sint (getAddress this) < 0 then [] else cmd_frame this gs),
        serial := s1\<rparr>)"
    using writeCommand_world by blast
  show ?thesis
  proof (cases "write_ok this gs w")
    case False
    with w1 show ?thesis
      unfolding gs_def by (simp add: getStatus_fail)
  next
    case True
    have addr: "\<not> sint (getAddress this) < 0" using True by (rule write_ok_address)
    define w1' where "w1' = w\<lparr>trace := trace w @ cmd_frame this gs, serial := s1\<rparr>"
    have wr: "writeCommand this (Command_GetStatus H) w = (True, w1')"
      using w1 True addr by (simp add: w1'_def gs_def)
    obtain s2 where "readResponse this (Some (local_buf 3 w)) 3 w1' =
       (length data = 3, Some (data @ drop (length data) (local_buf 3 w)),
        w1'\<lparr>trace := trace w1' @ [RequestFrom (getAddress this) (of_nat 3)],
            rx := [], serial := s2\<rparr>)"
      using readResponse_world [of 3 "local_buf 3 w" this w1'] addr
      by (auto simp: w1'_def data_def Let_def)
    from getStatus_read [OF wr this] True show ?thesis
      by (auto simp: gs_def)
  qed
qed

lemma getStatus_data:
  assumes "take 3 (bus_data w (trace w @ cmd_frame this (Command_GetStatus H))) = data"
  shows "\<exists>w'. getStatus H this w =
     (if write_ok this (Command_GetStatus H) w \<and> length data = 3 \<and>
         (m_noCrc this \<or> crc (take 2 data) crc_init = data ! 2)
      then StatusValid (be16 (data ! 0) (data ! 1)) else StatusInvalid, w')"
  using getStatus_world [of H this w] by (simp only: assms)

subsection \<open>\<open>getTemperatureHumidityRaw\<close> and \<open>getTemperatureHumidity\<close>\<close>

lemma raw_error:
  "getCommand H (Periodicity_Single H) r (ClockStretching_Disabled H) = Command_Error H \<Longrightarrow>
   getTemperatureHumidityRaw H this (t, rh) r w =
     (False, t, rh,
      debug_print this
        [Print ''getTemperatureHumidityRaw: Illegal repeatability: '', PrintlnNum r] w)"
  by (simp add: getTemperatureHumidityRaw_def)

lemma raw_write_fail:
  "getCommand H (Periodicity_Single H) r (ClockStretching_Disabled H) = c \<Longrightarrow>
   c \<noteq> Command_Error H \<Longrightarrow> writeCommand this c w = (False, w1) \<Longrightarrow>
   \<exists>w'. getTemperatureHumidityRaw H this (t, rh) r w = (False, t, rh, w')"
  by (simp add: getTemperatureHumidityRaw_def)

lemma raw_read:
  "getCommand H (Periodicity_Single H) r (ClockStretching_Disabled H) = c \<Longrightarrow>
   c \<noteq> Command_Error H \<Longrightarrow> writeCommand this c w = (True, w1) \<Longrightarrow>
   readResponse this (Some (local_buf 6 w)) 6 (delay 20 w1) = (ok, Some b, w2) \<Longrightarrow>
   \<exists>w'. getTemperatureHumidityRaw H this (t, rh) r w =
     (if ok then (fst (processResultsRaw this b), fst (snd (processResultsRaw this b)),
                  snd (snd (processResultsRaw this b)), w')
      else (False, t, rh, w'))"
  by (auto simp: getTemperatureHumidityRaw_def split_def Let_def)

lemma getTemperatureHumidityRaw_world:
  fixes H this r w t rh
  defines "c \<equiv> getCommand H (Periodicity_Single H) r (ClockStretching_Disabled H)"
  defines "data \<equiv> take 6 (bus_data w (trace w @ cmd_frame this c @ [Delay 20]))"
  shows "\<exists>w'. getTemperatureHumidityRaw H this (t, rh) r w =
     (if c \<noteq> Command_Error H \<and> write_ok this c w \<and> length data = 6
      then (m_noCrc this \<or>
              crc (take 2 data) crc_init = data ! 2 \<and>
              crc (take 2 (drop 3 data)) crc_init = data ! 5,
            be16 (data ! 0) (data ! 1), be16 (data ! 3) (data ! 4), w')
      else (False, t, rh, w'))"
proof (cases "c = Command_Error H")
  case True
  then show ?thesis using raw_error [of H r this t rh w] by (simp add: c_def)
next
  case noerr: False
  obtain s1 where w1: "writeCommand this c w =
     (write_ok this c w,
      w\<lparr>trace := trace w @ (if sint (getAddress this) < 0 then [] else cmd_frame this c),
        serial := s1\<rparr>)"
    using writeCommand_world by blast
  show ?thesis
  proof (cases "write_ok this c w")
    case False
    with w1 noerr raw_write_fail [of H r c this w _ t rh] show ?thesis
      by (simp add: c_def)
  next
    case True
    have addr: "\<not> sint (getAddress this) < 0" using True by (rule write_ok_address)
    define w1' where "w1' = w\<lparr>trace := trace w @ cmd_frame this c, serial := s1\<rparr>"
    have wr: "writeCommand this c w = (True, w1')"
      using w1 True addr by (simp add: w1'_def)
    obtain s2 where rr: "readResponse this (Some (local_buf 6 w)) 6 (delay 20 w1') =
       (length data = 6, Some (data @ drop (length data) (local_buf 6 w)),
        (delay 20 w1')\<lparr>trace := trace (delay 20 w1') @ [RequestFrom (getAddress this) (of_nat 6)],
            rx := [], serial := s2\<rparr>)"
      using readResponse_world [of 6 "local_buf 6 w" this "delay 20 w1'"] addr
      by (auto simp: w1'_def data_def Let_def delay_def)
    have ceq: "getCommand H (Periodicity_Single H) r (ClockStretching_Disabled H) = c"
      by (simp add: c_def)
    from raw_read [OF ceq noerr wr rr, of t rh] True noerr show ?thesis
      by (auto simp: processResultsRaw_eq)
  qed
qed

lemma getTemperatureHumidityRaw_data:
  assumes "getCommand H (Periodicity_Single H) r (ClockStretching_Disabled H) = c"
    and "take 6 (bus_data w (trace w @ cmd_frame this c @ [Delay 20])) = data"
  shows "\<exists>w'. getTemperatureHumidityRaw H this (t, rh) r w =
     (if c \<noteq> Command_Error H \<and> write_ok this c w \<and> length data = 6
      then (m_noCrc this \<or>
              crc (take 2 data) crc_init = data ! 2 \<and>
              crc (take 2 (drop 3 data)) crc_init = data ! 5,
            be16 (data ! 0) (data ! 1), be16 (data ! 3) (data ! 4), w')
      else (False, t, rh, w'))"
  using getTemperatureHumidityRaw_world [of H this t rh r w] by (simp only: assms)

lemma getTemperatureHumidity_unfold:
  "getTemperatureHumidityRaw H this (indet16 w 0, indet16 w 1) r w = (ok, tf, rhf, w') \<Longrightarrow>
   getTemperatureHumidity H this r w =
     (if ok then (True, Finite (rawTtoCelsius tf), Finite (rawRHtoPercent rhf), w')
      else (False, NaN, NaN, w'))"
  by (simp add: getTemperatureHumidity_def)

subsection \<open>\<open>startPeriodicMeasurement\<close>\<close>

lemma startPeriodicMeasurement_zero:
  "PeriodicityToMillis H (getPeriodicity H c) = 0 \<Longrightarrow>
   startPeriodicMeasurement H this c w = (0, w)"
  by (simp add: startPeriodicMeasurement_def)

lemma startPeriodicMeasurement_break_fail:
  "PeriodicityToMillis H (getPeriodicity H c) \<noteq> 0 \<Longrightarrow>
   writeCommand this (Command_Break H) w = (False, w1) \<Longrightarrow>
   startPeriodicMeasurement H this c w = (0, w1)"
  by (simp add: startPeriodicMeasurement_def)

lemma startPeriodicMeasurement_start:
  "PeriodicityToMillis H (getPeriodicity H c) \<noteq> 0 \<Longrightarrow>
   writeCommand this (Command_Break H) w = (True, w1) \<Longrightarrow>
   writeCommand this c w1 = (ok, w2) \<Longrightarrow>
   startPeriodicMeasurement H this c w =
     (if ok then PeriodicityToMillis H (getPeriodicity H c) else 0, w2)"
  by (simp add: startPeriodicMeasurement_def)

subsection \<open>\<open>getPeriodicMeasurementRaw\<close> and \<open>getPeriodicMeasurement\<close>\<close>

lemma getPeriodicMeasurementRaw_fail:
  "writeCommand this (Command_Fetch H) w = (False, w1) \<Longrightarrow>
   getPeriodicMeasurementRaw H this (t, rh) w = (False, t, rh, w1)"
  by (simp add: getPeriodicMeasurementRaw_def)

lemma getPeriodicMeasurementRaw_read:
  "writeCommand this (Command_Fetch H) w = (True, w1) \<Longrightarrow>
   readResponse this (Some (local_buf 6 w)) 6 w1 = (ok, Some b, w2) \<Longrightarrow>
   getPeriodicMeasurementRaw H this (t, rh) w =
     (if ok then (fst (processResultsRaw this b), fst (snd (processResultsRaw this b)),
                  snd (snd (processResultsRaw this b)), w2)
      else (False, t, rh, w2))"
  by (simp add: getPeriodicMeasurementRaw_def split_def Let_def)

lemma getPeriodicMeasurementRaw_data:
  assumes d: "take 6 (bus_data w (trace w @ cmd_frame this (Command_Fetch H))) = data"
  shows "\<exists>w'. getPeriodicMeasurementRaw H this (t, rh) w =
     (if write_ok this (Command_Fetch H) w \<and> length data = 6
      then (m_noCrc this \<or>
              crc (take 2 data) crc_init = data ! 2 \<and>
              crc (take 2 (drop 3 data)) crc_init = data ! 5,
            be16 (data ! 0) (data ! 1), be16 (data ! 3) (data ! 4), w')
      else (False, t, rh, w'))"
proof -
  define f where "f = Command_Fetch H"
  obtain s1 where w1: "writeCommand this f w =
     (write_ok this f w,
      w\<lparr>trace := trace w @ (if sint (getAddress this) < 0 then [] else cmd_frame this f),
        serial := s1\<rparr>)"
    using writeCommand_world by blast
  show ?thesis
  proof (cases "write_ok this f w")
    case False
    with w1 getPeriodicMeasurementRaw_fail [of this H w _ t rh] show ?thesis
      by (simp add: f_def)
  next
    case True
    have addr: "\<not> sint (getAddress this) < 0" using True by (rule write_ok_address)
    define w1' where "w1' = w\<lparr>trace := trace w @ cmd_frame this f, serial := s1\<rparr>"
    have wr: "writeCommand this (Command_Fetch H) w = (True, w1')"
      using w1 True addr by (simp add: w1'_def f_def)
    obtain s2 where rr: "readResponse this (Some (local_buf 6 w)) 6 w1' =
       (length data = 6, Some (data @ drop (length data) (local_buf 6 w)),
        w1'\<lparr>trace := trace w1' @ [RequestFrom (getAddress this) (of_nat 6)],
            rx := [], serial := s2\<rparr>)"
      using readResponse_world [of 6 "local_buf 6 w" this w1'] addr d
      by (auto simp: w1'_def f_def Let_def)
    from getPeriodicMeasurementRaw_read [OF wr rr, of t rh] True show ?thesis
      by (auto simp: processResultsRaw_eq f_def)
  qed
qed

lemma getPeriodicMeasurement_unfold:
  "getPeriodicMeasurementRaw H this (indet16 w 0, indet16 w 1) w = (ok, tf, rhf, w') \<Longrightarrow>
   getPeriodicMeasurement H this (t, rh) w =
     (if ok then (True, Finite (rawTtoCelsius tf), Finite (rawRHtoPercent rhf), w')
      else (False, t, rh, w'))"
  by (simp add: getPeriodicMeasurement_def)

lemma getPeriodicMeasurement_data:
  assumes d: "take 6 (bus_data w (trace w @ cmd_frame this (Command_Fetch H))) = data"
  shows "\<exists>w'. getPeriodicMeasurement H this (t, rh) w =
     (if write_ok this (Command_Fetch H) w \<and> length data = 6 \<and>
         (m_noCrc this \<or>
            crc (take 2 data) crc_init = data ! 2 \<and>
            crc (take 2 (drop 3 data)) crc_init = data ! 5)
      then (True, Finite (rawTtoCelsius (be16 (data ! 0) (data ! 1))),
            Finite (rawRHtoPercent (be16 (data ! 3) (data ! 4))), w')
      else (False, t, rh, w'))"
proof -
  obtain w' where raw: "getPeriodicMeasurementRaw H this (indet16 w 0, indet16 w 1) w =
     (if write_ok this (Command_Fetch H) w \<and> length data = 6
      then (m_noCrc this \<or>
              crc (take 2 data) crc_init = data ! 2 \<and>
              crc (take 2 (drop 3 data)) crc_init = data ! 5,
            be16 (data ! 0) (data ! 1), be16 (data ! 3) (data ! 4), w')
      else (False, indet16 w 0, indet16 w 1, w'))"
    using getPeriodicMeasurementRaw_data [OF d] by blast
  show ?thesis
  proof (cases "write_ok this (Command_Fetch H) w \<and> length data = 6")
    case True
    with raw getPeriodicMeasurement_unfold [of H this w _ _ _ w' t rh] show ?thesis
      by auto
  next
    case False
    with raw getPeriodicMeasurement_unfold [of H this w False _ _ w' t rh] show ?thesis
      by auto
  qed
qed

subsection \<open>The example instances\<close>

lemma be16_examples:
  "be16 0x66 0x66 = 0x6666" "be16 0x40 0x00 = 0x4000" "be16 0x80 0x10 = 0x8010"
  by (simp_all add: be16_def)

lemma crc_examples:
  "crc [0x66, 0x66] crc_init = 0x93" "crc [0x40, 0x00] crc_init = 0x08"
  "crc [0x00, 0x00] crc_init = 0x81" "crc [0x80, 0x10] crc_init = 0xE1"
  by (simp_all add: crc_init_def crc_byte_def crcTable_def)

lemma example_write_ok:
  "write_ok (example_device n) c (example_world reply)"
  by (simp add: write_ok_def example_device_def example_world_def getAddress_def)

lemma example_reply: "take n (bus_data (example_world reply) tr) = take n reply"
  by (simp add: example_world_def)

lemma example_single_shot:
  "getCommand example_header (Periodicity_Single example_header) 2
     (ClockStretching_Disabled example_header) \<noteq> Command_Error example_header"
  by (simp add: example_header_def)

lemma example_periodic:
  "PeriodicityToMillis example_header (getPeriodicity example_header 0x2130) = 1000"
  "PeriodicityToMillis example_header (getPeriodicity example_header 0x2400) = 0"
  "Command_Break example_header = 0x3093"
  by (simp_all add: example_header_def)

lemma example_world_trace:
  "trace (example_world reply) = []"
  "write_ok (example_device n) c (example_world reply\<lparr>trace := tr\<rparr>)"
  "\<not> sint (getAddress (example_device n)) < 0"
  by (simp_all add: write_ok_def example_device_def example_world_def getAddress_def)

section \<open>The operations against their specification\<close>

text \<open>
  C2. The failure contract of \<open>getPeriodicMeasurement\<close>, evaluated at a bus that
  acknowledges the Fetch command and delivers no data: the call returns false and its
  output parameters still hold what they held before, 20 and 50, which are not the
  not-a-number sentinel; the single-shot call in the same world returns false with both
  outputs not-a-number.
\<close>

theorem getPeriodicMeasurement_failure_keeps_outputs:
  "(\<exists>w'. getPeriodicMeasurement example_header (example_device False) (Finite 20, Finite 50)
            (example_world []) = (False, Finite 20, Finite 50, w'))
   \<and> Finite 20 \<noteq> NaN \<and> Finite 50 \<noteq> NaN
   \<and> (\<exists>w'. getTemperatureHumidity example_header (example_device False) 2
            (example_world []) = (False, NaN, NaN, w'))"
proof -
  have d: "take 6 (bus_data (example_world []) tr) = []" for tr
    by (simp add: example_reply)
  from getPeriodicMeasurement_data [OF d, where this = "example_device False"
      and H = example_header and t = "Finite 20" and rh = "Finite 50"]
  have "\<exists>w'. getPeriodicMeasurement example_header (example_device False) (Finite 20, Finite 50)
            (example_world []) = (False, Finite 20, Finite 50, w')"
    by simp
  moreover
  have "\<exists>w'. getTemperatureHumidity example_header (example_device False) 2
            (example_world []) = (False, NaN, NaN, w')"
  proof -
    obtain w' where r: "getTemperatureHumidityRaw example_header (example_device False)
        (indet16 (example_world []) 0, indet16 (example_world []) 1) 2 (example_world []) =
        (False, indet16 (example_world []) 0, indet16 (example_world []) 1, w')"
      using getTemperatureHumidityRaw_data [OF refl d, where H = example_header and r = 2
          and this = "example_device False"]
      by fastforce
    from getTemperatureHumidity_unfold [OF r] show ?thesis by simp
  qed
  ultimately show ?thesis by simp
qed

text \<open>
  C3. For every repeatability \<open>r\<close> whose single-shot encoding with clock stretching
  disabled is the \<open>Error\<close> sentinel, \<open>getTemperatureHumidityRaw\<close> returns false, leaves
  its output parameters as they were, and performs no bus write, no delay and no bus
  read: the trace and the receive buffer are unchanged.
\<close>

theorem getTemperatureHumidityRaw_illegal_repeatability:
  assumes "getCommand H (Periodicity_Single H) r (ClockStretching_Disabled H) = Command_Error H"
  shows "\<exists>w'. getTemperatureHumidityRaw H this (t, rh) r w = (False, t, rh, w')
           \<and> trace w' = trace w \<and> rx w' = rx w"
  using raw_error [OF assms] by simp

theorem getTemperatureHumidityRaw_illegal_repeatability_witness:
  "getCommand example_header (Periodicity_Single example_header) 7
       (ClockStretching_Disabled example_header) = Command_Error example_header
   \<and> (\<exists>w'. getTemperatureHumidityRaw example_header (example_device False) (1, 2) 7
              (example_world []) = (False, 1, 2, w') \<and> trace w' = [])"
proof -
  have e: "getCommand example_header (Periodicity_Single example_header) 7
       (ClockStretching_Disabled example_header) = Command_Error example_header"
    by (simp add: example_header_def)
  show ?thesis
    using e getTemperatureHumidityRaw_illegal_repeatability
      [OF e, of "example_device False" 1 2 "example_world []"]
    by (auto simp: example_world_def)
qed

text \<open>
  C4. \<open>startPeriodicMeasurement\<close> computes the interval of the command's periodicity
  first. When the interval is 0 it returns 0 and the trace is unchanged: no bus write.
  Otherwise it writes the Break command and, when that write succeeded, the command
  itself; it returns the interval when both writes succeed and 0 when either fails.
\<close>

theorem startPeriodicMeasurement_contract:
  fixes H this c w
  defines "ms \<equiv> PeriodicityToMillis H (getPeriodicity H c)"
  defines "brk \<equiv> Command_Break H"
  defines "w1 \<equiv> w\<lparr>trace := trace w @ cmd_frame this brk\<rparr>"
  shows "\<exists>w'. startPeriodicMeasurement H this c w =
           (if ms \<noteq> 0 \<and> write_ok this brk w \<and> write_ok this c w1 then ms else 0, w')
         \<and> trace w' = trace w @
             (if ms = 0 \<or> sint (getAddress this) < 0 then []
              else cmd_frame this brk @ (if write_ok this brk w then cmd_frame this c else []))"
proof (cases "ms = 0")
  case True
  then show ?thesis
    using startPeriodicMeasurement_zero [of H c this w] by (simp add: ms_def)
next
  case nz: False
  obtain s1 where b: "writeCommand this brk w =
     (write_ok this brk w,
      w\<lparr>trace := trace w @ (if sint (getAddress this) < 0 then [] else cmd_frame this brk),
        serial := s1\<rparr>)"
    using writeCommand_world by blast
  show ?thesis
  proof (cases "write_ok this brk w")
    case False
    with b nz startPeriodicMeasurement_break_fail [of H c this w] show ?thesis
      by (auto simp: ms_def brk_def write_ok_def)
  next
    case True
    have addr: "\<not> sint (getAddress this) < 0" using True by (rule write_ok_address)
    have b': "writeCommand this (Command_Break H) w = (True, w1\<lparr>serial := s1\<rparr>)"
      using b True addr by (simp add: w1_def brk_def)
    obtain s2 where s: "writeCommand this c (w1\<lparr>serial := s1\<rparr>) =
       (write_ok this c w1,
        w1\<lparr>trace := trace w1 @ cmd_frame this c, serial := s2\<rparr>)"
      using writeCommand_world [of this c "w1\<lparr>serial := s1\<rparr>"] addr by auto
    from startPeriodicMeasurement_start [OF _ b' s] nz True addr show ?thesis
      by (auto simp: ms_def w1_def)
  qed
qed

theorem startPeriodicMeasurement_contract_witness:
  "(\<exists>w'. startPeriodicMeasurement example_header (example_device False) 0x2130
            (example_world []) = (1000, w')
        \<and> trace w' = cmd_frame (example_device False) 0x3093
                      @ cmd_frame (example_device False) 0x2130)
   \<and> (\<exists>w'. startPeriodicMeasurement example_header (example_device False) 0x2400
            (example_world []) = (0, w') \<and> trace w' = [])"
  using startPeriodicMeasurement_contract [where H = example_header and c = "0x2130"
      and this = "example_device False" and w = "example_world []"]
    startPeriodicMeasurement_contract [where H = example_header and c = "0x2400"
      and this = "example_device False" and w = "example_world []"]
  by (simp add: example_periodic example_write_ok example_world_trace)

text \<open>
  C5. \<open>getStatus\<close> returns the big-endian status word of the first two bytes, that is
  256 times the first byte plus the second, as a valid status exactly when the GetStatus
  write succeeds, the bus delivers three bytes, and the checksum of the first two bytes
  equals the third or integrity checking is disabled; in every other case it returns the
  invalid status, which differs from the valid all-zero status.
\<close>

theorem getStatus_valid_iff:
  fixes H this w
  defines "gs \<equiv> Command_GetStatus H"
  defines "data \<equiv> take 3 (bus_data w (trace w @ cmd_frame this gs))"
  defines "ok \<equiv> write_ok this gs w \<and> length data = 3 \<and>
                 (m_noCrc this \<or> crc (take 2 data) crc_init = data ! 2)"
  shows "fst (getStatus H this w) =
           (if ok then StatusValid (be16 (data ! 0) (data ! 1)) else StatusInvalid)
         \<and> unat (be16 (data ! 0) (data ! 1)) = 256 * unat (data ! 0) + unat (data ! 1)
         \<and> (fst (getStatus H this w) \<noteq> StatusInvalid) = ok
         \<and> StatusValid 0 \<noteq> StatusInvalid"
proof -
  obtain w' where "getStatus H this w =
      (if ok then StatusValid (be16 (data ! 0) (data ! 1)) else StatusInvalid, w')"
    using getStatus_world [of H this w] unfolding ok_def data_def gs_def by blast
  then show ?thesis by (simp add: be16_unat)
qed

theorem getStatus_valid_iff_witness:
  "fst (getStatus example_header (example_device False) (example_world [0x80, 0x10, 0xE1]))
     = StatusValid 0x8010
   \<and> unat (be16 0x80 0x10) = 32784
   \<and> fst (getStatus example_header (example_device False) (example_world [0x00, 0x00, 0x81]))
     = StatusValid 0
   \<and> fst (getStatus example_header (example_device False) (example_world [0x00, 0x00, 0x80]))
     = StatusInvalid"
  using getStatus_valid_iff [of example_header "example_device False"
      "example_world [0x80, 0x10, 0xE1]"]
    getStatus_valid_iff [of example_header "example_device False"
      "example_world [0x00, 0x00, 0x81]"]
    getStatus_valid_iff [of example_header "example_device False"
      "example_world [0x00, 0x00, 0x80]"]
  by (simp add: write_ok_def getAddress_def example_world_def example_device_def be16_def
      crc_init_def crc_byte_def crcTable_def)

text \<open>
  C6. A six-byte payload with a corrupted checksum byte is accepted by
  \<open>processResultsRaw\<close>, with the decoded raw fractions, when the skip-integrity-check
  flag is set, and rejected when the flag is clear; so is the measurement that receives
  the payload from the bus, and a status response with a corrupted checksum byte: the
  checksum bytes are read and, with the flag set, ignored. A decoded value is 256 times
  the first byte of its pair plus the second.
\<close>

theorem noCrc_bypasses_integrity_check:
  fixes H this r w
  defines "c \<equiv> getCommand H (Periodicity_Single H) r (ClockStretching_Disabled H)"
  defines "gs \<equiv> Command_GetStatus H"
  assumes corrupt: "crc [b0, b1] crc_init \<noteq> b2 \<or> crc [b3, b4] crc_init \<noteq> b5"
  shows "processResultsRaw this [b0, b1, b2, b3, b4, b5] = (m_noCrc this, be16 b0 b1, be16 b3 b4)
    \<and> (c \<noteq> Command_Error H \<and> write_ok this c w \<and>
        take 6 (bus_data w (trace w @ cmd_frame this c @ [Delay 20])) = [b0, b1, b2, b3, b4, b5]
        \<longrightarrow> fst (getTemperatureHumidityRaw H this (t, rh) r w) = m_noCrc this)
    \<and> (write_ok this gs w \<and> crc [sh, sl] crc_init \<noteq> sc \<and>
        take 3 (bus_data w (trace w @ cmd_frame this gs)) = [sh, sl, sc]
        \<longrightarrow> fst (getStatus H this w) =
              (if m_noCrc this then StatusValid (be16 sh sl) else StatusInvalid))
    \<and> unat (be16 b0 b1) = 256 * unat b0 + unat b1
    \<and> unat (be16 b3 b4) = 256 * unat b3 + unat b4
    \<and> unat (be16 sh sl) = 256 * unat sh + unat sl"
proof (intro conjI impI)
  show "unat (be16 b0 b1) = 256 * unat b0 + unat b1"
    "unat (be16 b3 b4) = 256 * unat b3 + unat b4"
    "unat (be16 sh sl) = 256 * unat sh + unat sl"
    by (rule be16_unat)+
next
  show "processResultsRaw this [b0, b1, b2, b3, b4, b5] = (m_noCrc this, be16 b0 b1, be16 b3 b4)"
    using corrupt by (auto simp: processResultsRaw_eq)
next
  assume a: "c \<noteq> Command_Error H \<and> write_ok this c w \<and>
        take 6 (bus_data w (trace w @ cmd_frame this c @ [Delay 20])) = [b0, b1, b2, b3, b4, b5]"
  have ceq: "getCommand H (Periodicity_Single H) r (ClockStretching_Disabled H) = c"
    by (simp add: c_def)
  from a have d: "take 6 (bus_data w (trace w @ cmd_frame this c @ [Delay 20])) =
      [b0, b1, b2, b3, b4, b5]" by simp
  from getTemperatureHumidityRaw_data [OF ceq d, of t rh] a corrupt
  show "fst (getTemperatureHumidityRaw H this (t, rh) r w) = m_noCrc this"
    by auto
next
  assume a: "write_ok this gs w \<and> crc [sh, sl] crc_init \<noteq> sc \<and>
        take 3 (bus_data w (trace w @ cmd_frame this gs)) = [sh, sl, sc]"
  then have d: "take 3 (bus_data w (trace w @ cmd_frame this (Command_GetStatus H))) = [sh, sl, sc]"
    by (simp add: gs_def)
  from getStatus_data [OF d] a
  show "fst (getStatus H this w) =
              (if m_noCrc this then StatusValid (be16 sh sl) else StatusInvalid)"
    by (auto simp: gs_def)
qed

theorem noCrc_bypasses_integrity_check_witness:
  "crc [0x66, 0x66] crc_init \<noteq> 0x00
   \<and> processResultsRaw (example_device True) [0x66, 0x66, 0x00, 0x40, 0x00, 0x08] =
       (True, 0x6666, 0x4000)
   \<and> processResultsRaw (example_device False) [0x66, 0x66, 0x00, 0x40, 0x00, 0x08] =
       (False, 0x6666, 0x4000)
   \<and> unat (0x6666 :: u16) = 256 * unat (0x66 :: u8) + unat (0x66 :: u8)
   \<and> fst (getTemperatureHumidityRaw example_header (example_device True) (0, 0) 2
            (example_world [0x66, 0x66, 0x00, 0x40, 0x00, 0x08])) = True
   \<and> fst (getTemperatureHumidityRaw example_header (example_device False) (0, 0) 2
            (example_world [0x66, 0x66, 0x00, 0x40, 0x00, 0x08])) = False
   \<and> fst (getStatus example_header (example_device True) (example_world [0x80, 0x10, 0x00]))
       = StatusValid 0x8010
   \<and> fst (getStatus example_header (example_device False) (example_world [0x80, 0x10, 0x00]))
       = StatusInvalid"
proof -
  have c0: "crc [0x66, 0x66] crc_init \<noteq> 0x00" and s: "crc [0x80, 0x10] crc_init \<noteq> 0x00"
    by (simp_all only: crc_examples) simp_all
  then have c: "crc [0x66, 0x66] crc_init \<noteq> 0x00 \<or> crc [0x40, 0x00] crc_init \<noteq> 0x08"
    by blast
  have n: "m_noCrc (example_device True)" "\<not> m_noCrc (example_device False)"
    by (simp_all add: example_device_def)
  have m: "take 6 (bus_data (example_world [0x66, 0x66, 0x00, 0x40, 0x00, 0x08]) tr) =
      [0x66, 0x66, 0x00, 0x40, 0x00, 0x08]" for tr
    by (simp add: example_reply)
  have g: "take 3 (bus_data (example_world [0x80, 0x10, 0x00]) tr) = [0x80, 0x10, 0x00]" for tr
    by (simp add: example_reply)
  note T = noCrc_bypasses_integrity_check [OF c, where H = example_header and r = 2
        and t = 0 and rh = 0 and sh = "0x80" and sl = "0x10" and sc = "0x00"]
  show ?thesis
    using T [where this = "example_device True"
          and w = "example_world [0x66, 0x66, 0x00, 0x40, 0x00, 0x08]"]
      T [where this = "example_device False"
          and w = "example_world [0x66, 0x66, 0x00, 0x40, 0x00, 0x08]"]
      T [where this = "example_device True" and w = "example_world [0x80, 0x10, 0x00]"]
      T [where this = "example_device False" and w = "example_world [0x80, 0x10, 0x00]"]
      c0 s n m g example_single_shot example_write_ok
    by (simp only: simp_thms if_True if_False be16_examples)
qed

text \<open>
  C7. \<open>getTemperatureHumidity\<close> succeeds exactly when the encoding is not the
  \<open>Error\<close> sentinel, the command write succeeds, the bus delivers six bytes and the
  validation passes; then it returns true with \<open>t\<close> the Celsius conversion of the
  temperature fraction and \<open>rh\<close> the percent conversion of the humidity fraction, a
  fraction being 256 times the first byte of its pair plus the second. When any stage
  fails it returns false with both outputs the not-a-number sentinel.
\<close>

theorem getTemperatureHumidity_contract:
  fixes H this r w
  defines "c \<equiv> getCommand H (Periodicity_Single H) r (ClockStretching_Disabled H)"
  defines "data \<equiv> take 6 (bus_data w (trace w @ cmd_frame this c @ [Delay 20]))"
  defines "ok \<equiv> c \<noteq> Command_Error H \<and> write_ok this c w \<and> length data = 6 \<and>
                 (m_noCrc this \<or>
                    crc (take 2 data) crc_init = data ! 2 \<and>
                    crc (take 2 (drop 3 data)) crc_init = data ! 5)"
  shows "(\<exists>w'. getTemperatureHumidity H this r w =
     (if ok
      then (True, Finite (rawTtoCelsius (be16 (data ! 0) (data ! 1))),
            Finite (rawRHtoPercent (be16 (data ! 3) (data ! 4))), w')
      else (False, NaN, NaN, w')))
    \<and> unat (be16 (data ! 0) (data ! 1)) = 256 * unat (data ! 0) + unat (data ! 1)
    \<and> unat (be16 (data ! 3) (data ! 4)) = 256 * unat (data ! 3) + unat (data ! 4)"
proof -
  have ceq: "getCommand H (Periodicity_Single H) r (ClockStretching_Disabled H) = c"
    by (simp add: c_def)
  have d: "take 6 (bus_data w (trace w @ cmd_frame this c @ [Delay 20])) = data"
    by (simp add: data_def)
  obtain w' where raw: "getTemperatureHumidityRaw H this (indet16 w 0, indet16 w 1) r w =
     (if c \<noteq> Command_Error H \<and> write_ok this c w \<and> length data = 6
      then (m_noCrc this \<or>
              crc (take 2 data) crc_init = data ! 2 \<and>
              crc (take 2 (drop 3 data)) crc_init = data ! 5,
            be16 (data ! 0) (data ! 1), be16 (data ! 3) (data ! 4), w')
      else (False, indet16 w 0, indet16 w 1, w'))"
    using getTemperatureHumidityRaw_data [OF ceq d] by blast
  have "\<exists>w'. getTemperatureHumidity H this r w =
     (if ok
      then (True, Finite (rawTtoCelsius (be16 (data ! 0) (data ! 1))),
            Finite (rawRHtoPercent (be16 (data ! 3) (data ! 4))), w')
      else (False, NaN, NaN, w'))"
  proof (cases "c \<noteq> Command_Error H \<and> write_ok this c w \<and> length data = 6")
    case True
    with raw getTemperatureHumidity_unfold [of H this w r _ _ _ w'] show ?thesis
      by (auto simp: ok_def)
  next
    case False
    with raw getTemperatureHumidity_unfold [of H this w r False _ _ w'] show ?thesis
      by (auto simp: ok_def)
  qed
  then show ?thesis by (simp only: be16_unat simp_thms)
qed

theorem getTemperatureHumidity_contract_witness:
  "(\<exists>w'. getTemperatureHumidity example_header (example_device False) 2
       (example_world [0x66, 0x66, 0x93, 0x40, 0x00, 0x08]) =
       (True, Finite (rawTtoCelsius 0x6666), Finite (rawRHtoPercent 0x4000), w'))
   \<and> (\<exists>w'. getTemperatureHumidity example_header (example_device False) 2
       (example_world [0x66, 0x66, 0x93, 0x40, 0x00]) = (False, NaN, NaN, w'))"
  using getTemperatureHumidity_contract [where H = example_header and r = 2
      and this = "example_device False"
      and w = "example_world [0x66, 0x66, 0x93, 0x40, 0x00, 0x08]"]
    getTemperatureHumidity_contract [where H = example_header and r = 2
      and this = "example_device False"
      and w = "example_world [0x66, 0x66, 0x93, 0x40, 0x00]"]
    example_single_shot
  by (simp add: example_reply example_write_ok crc_examples [unfolded crc.simps]
      be16_examples)

text \<open>
  C8. The conversions are the linear formulas \<open>-45 + 175 * frac / 65535\<close> and
  \<open>100 * frac / 65535\<close>; they map 0 to -45 and 0, and 65535 to 130 and 100 (exactly, over
  the reals), and both are strictly increasing in the raw fraction.
\<close>

theorem conversions_linear:
  "rawTtoCelsius x = -45 + 175 * real (unat x) / 65535
   \<and> rawRHtoPercent x = 100 * real (unat x) / 65535
   \<and> rawTtoCelsius 0 = -45 \<and> rawTtoCelsius 65535 = 130
   \<and> rawRHtoPercent 0 = 0 \<and> rawRHtoPercent 65535 = 100
   \<and> (rawTtoCelsius x < rawTtoCelsius y) = (x < y)
   \<and> (rawRHtoPercent x < rawRHtoPercent y) = (x < y)
   \<and> (rawTtoCelsius x \<le> rawTtoCelsius y) = (x \<le> y)
   \<and> (rawRHtoPercent x \<le> rawRHtoPercent y) = (x \<le> y)"
  by (simp add: rawTtoCelsius_def rawRHtoPercent_def word_less_nat_alt word_le_nat_alt
      divide_less_cancel divide_le_cancel del: of_nat_unat)

text \<open>
  C9. \<open>readResponse\<close> returns false without any bus request (trace and receive buffer
  unchanged, the caller's buffer untouched) when the buffer pointer is null, the length
  exceeds 32 or the address is negative; \<open>writeCommand\<close> returns false without starting
  a transaction when the address is negative.
\<close>

theorem bus_helpers_validate:
  "(buf = None \<or> 32 < nBuf \<or> sint (getAddress this) < 0 \<longrightarrow>
      (\<exists>w'. readResponse this buf nBuf w = (False, buf, w')
            \<and> trace w' = trace w \<and> rx w' = rx w))
   \<and> (sint (getAddress this) < 0 \<longrightarrow>
      (\<exists>w'. writeCommand this c w = (False, w') \<and> trace w' = trace w \<and> rx w' = rx w))"
  by (simp add: readResponse_def writeCommand_def)

theorem bus_helpers_validate_witness:
  "sint (getAddress (example_device False\<lparr>m_address := 0xFF\<rparr>)) < 0
   \<and> (\<exists>w'. readResponse (example_device False\<lparr>m_address := 0xFF\<rparr>) None 33
              (example_world []) = (False, None, w') \<and> trace w' = [])
   \<and> (\<exists>w'. writeCommand (example_device False\<lparr>m_address := 0xFF\<rparr>) 0xE000
              (example_world []) = (False, w') \<and> trace w' = [])"
proof -
  have a: "sint (getAddress (example_device False\<lparr>m_address := 0xFF\<rparr>)) < 0"
    by (simp add: getAddress_def example_device_def)
  show ?thesis
    using a bus_helpers_validate [of None 33 "example_device False\<lparr>m_address := 0xFF\<rparr>"
        "example_world []" "0xE000"]
    by (auto simp: example_world_def)
qed

text \<open>
  C10. With integrity checking enabled, on a six-byte buffer whose checksum bytes
  mismatch \<open>processResultsRaw\<close> returns false and its output parameters hold the
  big-endian fractions of bytes 0-1 and 3-4, unvalidated, each 256 times the first byte
  of its pair plus the second; \<open>getTemperatureHumidityRaw\<close> hands them on to its own
  output parameters, whatever these held before.
\<close>

theorem processResultsRaw_assigns_before_check:
  fixes H this r w
  defines "c \<equiv> getCommand H (Periodicity_Single H) r (ClockStretching_Disabled H)"
  assumes crc_on: "\<not> m_noCrc this"
    and mismatch: "crc [b0, b1] crc_init \<noteq> b2 \<or> crc [b3, b4] crc_init \<noteq> b5"
  shows "processResultsRaw this [b0, b1, b2, b3, b4, b5] = (False, be16 b0 b1, be16 b3 b4)
    \<and> (c \<noteq> Command_Error H \<and> write_ok this c w \<and>
        take 6 (bus_data w (trace w @ cmd_frame this c @ [Delay 20])) = [b0, b1, b2, b3, b4, b5]
        \<longrightarrow> (\<exists>w'. getTemperatureHumidityRaw H this (t, rh) r w =
                     (False, be16 b0 b1, be16 b3 b4, w')))
    \<and> unat (be16 b0 b1) = 256 * unat b0 + unat b1
    \<and> unat (be16 b3 b4) = 256 * unat b3 + unat b4"
proof (intro conjI impI)
  show "unat (be16 b0 b1) = 256 * unat b0 + unat b1"
    "unat (be16 b3 b4) = 256 * unat b3 + unat b4"
    by (rule be16_unat)+
next
  show "processResultsRaw this [b0, b1, b2, b3, b4, b5] = (False, be16 b0 b1, be16 b3 b4)"
    using crc_on mismatch by (auto simp: processResultsRaw_eq)
next
  assume a: "c \<noteq> Command_Error H \<and> write_ok this c w \<and>
        take 6 (bus_data w (trace w @ cmd_frame this c @ [Delay 20])) = [b0, b1, b2, b3, b4, b5]"
  have ceq: "getCommand H (Periodicity_Single H) r (ClockStretching_Disabled H) = c"
    by (simp add: c_def)
  from a have d: "take 6 (bus_data w (trace w @ cmd_frame this c @ [Delay 20])) =
      [b0, b1, b2, b3, b4, b5]" by simp
  from getTemperatureHumidityRaw_data [OF ceq d, of t rh] a crc_on mismatch
  show "\<exists>w'. getTemperatureHumidityRaw H this (t, rh) r w = (False, be16 b0 b1, be16 b3 b4, w')"
    by auto
qed

theorem processResultsRaw_assigns_before_check_witness:
  "processResultsRaw (example_device False) [0x66, 0x66, 0x93, 0x40, 0x00, 0x09] =
       (False, 0x6666, 0x4000)
   \<and> (\<exists>w'. getTemperatureHumidityRaw example_header (example_device False) (1, 2) 2
            (example_world [0x66, 0x66, 0x93, 0x40, 0x00, 0x09]) =
              (False, 0x6666, 0x4000, w'))
   \<and> unat (0x4000 :: u16) = 256 * unat (0x40 :: u8) + unat (0x00 :: u8)"
proof -
  have "crc [0x40, 0x00] crc_init \<noteq> 0x09"
    by (simp only: crc_examples) simp
  then have c: "crc [0x66, 0x66] crc_init \<noteq> 0x93 \<or> crc [0x40, 0x00] crc_init \<noteq> 0x09"
    by blast
  have n: "\<not> m_noCrc (example_device False)"
    by (simp add: example_device_def)
  have m: "take 6 (bus_data (example_world [0x66, 0x66, 0x93, 0x40, 0x00, 0x09]) tr) =
      [0x66, 0x66, 0x93, 0x40, 0x00, 0x09]" for tr
    by (simp add: example_reply)
  show ?thesis
    using processResultsRaw_assigns_before_check [OF n c, where H = example_header and r = 2
        and t = 1 and rh = 2 and w = "example_world [0x66, 0x66, 0x93, 0x40, 0x00, 0x09]"]
      m example_single_shot example_write_ok
    by (simp only: simp_thms be16_examples)
qed

end
